theory Spec2Isabelle
  imports Complex_Main
begin

section \<open>JavaScript values used by the two pages\<close>

text \<open>
  A TypeScript \<open>number\<close> is an IEEE double: NaN, the two infinities, or a finite
  value. A finite double is represented by the real that JavaScript prints for it (its
  shortest round-trip decimal), so the literal \<open>0.7\<close> of the source is \<open>Num 0.7\<close>.
  That representation is strictly monotone on doubles, so the comparisons below decide
  exactly what \<open>>=\<close> decides in the source. The two zeros are one value.
\<close>

datatype number = NaN | NegInfinity | Num real | PosInfinity

text \<open>The relational operator \<open>a >= b\<close>: false as soon as one side is NaN.\<close>

fun ge :: "number \<Rightarrow> number \<Rightarrow> bool" where
  "ge NaN b = False"
| "ge a NaN = False"
| "ge PosInfinity b = True"
| "ge a NegInfinity = True"
| "ge NegInfinity b = False"
| "ge a PosInfinity = False"
| "ge (Num x) (Num y) = (y \<le> x)"

text \<open>The relational operator \<open>a < b\<close>, used to state results only.\<close>

fun lt :: "number \<Rightarrow> number \<Rightarrow> bool" where
  "lt NaN b = False"
| "lt a NaN = False"
| "lt PosInfinity b = False"
| "lt a NegInfinity = False"
| "lt NegInfinity b = True"
| "lt a PosInfinity = True"
| "lt (Num x) (Num y) = (x < y)"

text \<open>
  Two operations of the language runtime are parameters of the model, since their
  results depend on IEEE rounding: the product of two numbers (\<open>mul\<close>) and
  \<open>Number.prototype.toFixed\<close> (\<open>toFixed x digits\<close>).
\<close>

type_synonym js_mul = "number \<Rightarrow> number \<Rightarrow> number"
type_synonym js_toFixed = "number \<Rightarrow> nat \<Rightarrow> string"

section \<open>The probability helpers of the homepage (frontend/app/page.tsx)\<close>

definition getProbabilityBadgeClass_home :: "number \<Rightarrow> string" where
  "getProbabilityBadgeClass_home prob =
     (if ge prob (Num 0.7) then ''bg-emerald-100 text-emerald-800 border-emerald-500''
      else if ge prob (Num 0.5) then ''bg-amber-100 text-amber-800 border-amber-500''
      else ''bg-rose-100 text-rose-800 border-rose-500'')"

definition formatProbability_home :: "js_mul \<Rightarrow> js_toFixed \<Rightarrow> number \<Rightarrow> string" where
  "formatProbability_home mul toFixed prob = toFixed (mul prob (Num 100)) 1 @ ''%''"

section \<open>The probability helpers of the player page (frontend/app/player/page.tsx)\<close>

definition formatProbability_player :: "js_mul \<Rightarrow> js_toFixed \<Rightarrow> number \<Rightarrow> string" where
  "formatProbability_player mul toFixed prob = toFixed (mul prob (Num 100)) 1 @ ''%''"

definition getProbabilityBadgeClass_player :: "number \<Rightarrow> string" where
  "getProbabilityBadgeClass_player prob =
     (if ge prob (Num 0.7) then ''bg-emerald-100 text-emerald-800 border-emerald-500''
      else if ge prob (Num 0.5) then ''bg-amber-100 text-amber-800 border-amber-500''
      else ''bg-rose-100 text-rose-800 border-rose-500'')"

text \<open>The three class strings, named for the statements below.\<close>

definition emerald :: string where
  "emerald = ''bg-emerald-100 text-emerald-800 border-emerald-500''"

definition amber :: string where
  "amber = ''bg-amber-100 text-amber-800 border-amber-500''"

definition rose :: string where
  "rose = ''bg-rose-100 text-rose-800 border-rose-500''"

section \<open>The homepage: state, fetchProps and the rendered blocks\<close>

text \<open>The interface \<open>PropBet\<close>; the optional \<open>game_time\<close> is an option.\<close>

record PropBet =
  player_id :: number
  full_name :: string
  line :: number
  prob_over :: number
  confidence_interval :: number
  home_team :: string
  away_team :: string
  game_time :: "string option"
  last_updated :: string

text \<open>The three \<open>useState\<close> cells that fetchProps writes.\<close>

record page_state =
  props :: "PropBet list"
  loading :: bool
  error :: "string option"

text \<open>
  What \<open>fetch\<close> and \<open>response.json()\<close> can do: \<open>fetch\<close> rejects (a network
  error), or resolves to a response with a status whose body either fails to parse or
  parses to the data handed to \<open>setProps\<close>, taken at the type \<open>PropBet[]\<close> the state
  declares. \<open>response.ok\<close> is the Fetch standard's test of the status.
\<close>

datatype json_result = JsonError | JsonValue "PropBet list"

datatype fetch_outcome = NetworkError | Response nat json_result

definition ok :: "nat \<Rightarrow> bool" where
  "ok status = (200 \<le> status \<and> status \<le> 299)"

text \<open>The request URL; \<open>api_url\<close> is \<open>process.env.NEXT_PUBLIC_API_URL\<close>.\<close>

definition props_url :: "string option \<Rightarrow> string \<Rightarrow> string" where
  "props_url api_url fetchDate =
     (case api_url of
        None \<Rightarrow> ''http://localhost:5000''
      | Some u \<Rightarrow> if u = [] then ''http://localhost:5000'' else u)
     @ ''/api/props?date='' @ fetchDate"

text \<open>The mock array of the \<open>!response.ok\<close> branch.\<close>

definition mockData_not_ok :: "PropBet list" where
  "mockData_not_ok =
    [\<lparr>player_id = Num 1, full_name = ''LeBron James'', line = Num 25.5,
      prob_over = Num 0.72, confidence_interval = Num 7.5, home_team = ''LAL'',
      away_team = ''GSW'', game_time = Some ''19:30'',
      last_updated = ''2025-04-18 10:00:00''\<rparr>,
     \<lparr>player_id = Num 9, full_name = ''Giannis Antetokounmpo'', line = Num 30.5,
      prob_over = Num 0.73, confidence_interval = Num 6.9, home_team = ''MIL'',
      away_team = ''IND'', game_time = Some ''17:30'',
      last_updated = ''2025-04-18 10:00:00''\<rparr>,
     \<lparr>player_id = Num 7, full_name = ''Luka Doncic'', line = Num 32.5,
      prob_over = Num 0.68, confidence_interval = Num 6.5, home_team = ''DAL'',
      away_team = ''OKC'', game_time = Some ''19:00'',
      last_updated = ''2025-04-18 10:00:00''\<rparr>,
     \<lparr>player_id = Num 2, full_name = ''Stephen Curry'', line = Num 28.5,
      prob_over = Num 0.65, confidence_interval = Num 6.8, home_team = ''LAL'',
      away_team = ''GSW'', game_time = Some ''19:30'',
      last_updated = ''2025-04-18 10:00:00''\<rparr>,
     \<lparr>player_id = Num 4, full_name = ''Nikola Jokic'', line = Num 26.5,
      prob_over = Num 0.61, confidence_interval = Num 7.1, home_team = ''PHX'',
      away_team = ''DEN'', game_time = Some ''20:00'',
      last_updated = ''2025-04-18 10:00:00''\<rparr>]"

text \<open>The mock array of the \<open>catch\<close> block, written out a second time in the source.\<close>

definition mockData_catch :: "PropBet list" where
  "mockData_catch =
    [\<lparr>player_id = Num 1, full_name = ''LeBron James'', line = Num 25.5,
      prob_over = Num 0.72, confidence_interval = Num 7.5, home_team = ''LAL'',
      away_team = ''GSW'', game_time = Some ''19:30'',
      last_updated = ''2025-04-18 10:00:00''\<rparr>,
     \<lparr>player_id = Num 9, full_name = ''Giannis Antetokounmpo'', line = Num 30.5,
      prob_over = Num 0.73, confidence_interval = Num 6.9, home_team = ''MIL'',
      away_team = ''IND'', game_time = Some ''17:30'',
      last_updated = ''2025-04-18 10:00:00''\<rparr>,
     \<lparr>player_id = Num 7, full_name = ''Luka Doncic'', line = Num 32.5,
      prob_over = Num 0.68, confidence_interval = Num 6.5, home_team = ''DAL'',
      away_team = ''OKC'', game_time = Some ''19:00'',
      last_updated = ''2025-04-18 10:00:00''\<rparr>,
     \<lparr>player_id = Num 2, full_name = ''Stephen Curry'', line = Num 28.5,
      prob_over = Num 0.65, confidence_interval = Num 6.8, home_team = ''LAL'',
      away_team = ''GSW'', game_time = Some ''19:30'',
      last_updated = ''2025-04-18 10:00:00''\<rparr>,
     \<lparr>player_id = Num 4, full_name = ''Nikola Jokic'', line = Num 26.5,
      prob_over = Num 0.61, confidence_interval = Num 7.1, home_team = ''PHX'',
      away_team = ''DEN'', game_time = Some ''20:00'',
      last_updated = ''2025-04-18 10:00:00''\<rparr>]"

text \<open>
  The body of the \<open>try\<close> block, run on the state left by \<open>setLoading(true)\<close> and
  \<open>setError(null)\<close>. \<open>Inl ()\<close> is an exception thrown to the \<open>catch\<close> block: the
  rejected \<open>fetch\<close>, or \<open>response.json()\<close> failing. The network is a function from
  the request URL to what the request does.
\<close>

definition fetchProps_try ::
  "(string \<Rightarrow> fetch_outcome) \<Rightarrow> string option \<Rightarrow> page_state \<Rightarrow> string \<Rightarrow> unit + page_state"
where
  "fetchProps_try network api_url st fetchDate =
     (case network (props_url api_url fetchDate) of
        NetworkError \<Rightarrow> Inl ()
      | Response status body \<Rightarrow>
          if \<not> ok status then Inr (st\<lparr>props := mockData_not_ok\<rparr>)
          else (case body of
                  JsonError \<Rightarrow> Inl ()
                | JsonValue data \<Rightarrow> Inr (st\<lparr>props := data\<rparr>)))"

text \<open>fetchProps: the state once the promise has settled (\<open>finally\<close> has run).\<close>

definition fetchProps ::
  "(string \<Rightarrow> fetch_outcome) \<Rightarrow> string option \<Rightarrow> page_state \<Rightarrow> string \<Rightarrow> page_state"
where
  "fetchProps network api_url st fetchDate =
     (let st1 = st\<lparr>loading := True, error := None\<rparr>;
          st2 = (case fetchProps_try network api_url st1 fetchDate of
                   Inr s \<Rightarrow> s
                 | Inl _ \<Rightarrow> st1\<lparr>props := mockData_catch\<rparr>)
      in st2\<lparr>loading := False\<rparr>)"

text \<open>
  The blocks of the returned JSX that depend on the state, in document order. A row of
  the results table holds the texts of its cells; the title of the badge is built around
  the formatted confidence interval, kept here as that formatted number.
\<close>

record table_row =
  cell_player :: string
  cell_matchup :: string
  cell_time :: string
  cell_line :: string
  badge_class :: string
  badge_title_interval :: string
  badge_text :: string

datatype block = LoadingSpinner | ErrorBox string | EmptyState | ResultsTable "table_row list"

text \<open>JavaScript truthiness of a \<open>string | null\<close>: null and the empty string are falsy.\<close>

definition truthy :: "string option \<Rightarrow> bool" where
  "truthy s = (case s of None \<Rightarrow> False | Some t \<Rightarrow> t \<noteq> [])"

definition render_row :: "js_mul \<Rightarrow> js_toFixed \<Rightarrow> PropBet \<Rightarrow> table_row" where
  "render_row mul toFixed prop =
     \<lparr>cell_player = full_name prop,
      cell_matchup = away_team prop @ '' @ '' @ home_team prop,
      cell_time = (if truthy (game_time prop) then the (game_time prop) else ''TBD''),
      cell_line = toFixed (line prop) 1 @ '' pts'',
      badge_class = ''inline-flex items-center px-3 py-1 rounded-full text-sm font-medium border ''
                      @ getProbabilityBadgeClass_home (prob_over prop),
      badge_title_interval = toFixed (confidence_interval prop) 1,
      badge_text = formatProbability_home mul toFixed (prob_over prop)\<rparr>"

definition render :: "js_mul \<Rightarrow> js_toFixed \<Rightarrow> page_state \<Rightarrow> block list" where
  "render mul toFixed st =
     (if loading st then [LoadingSpinner] else [])
     @ (if truthy (error st) \<and> \<not> loading st then [ErrorBox (the (error st))] else [])
     @ (if \<not> loading st \<and> \<not> truthy (error st) \<and> length (props st) = 0
        then [EmptyState] else [])
     @ (if \<not> loading st \<and> \<not> truthy (error st) \<and> length (props st) > 0
        then [ResultsTable (map (render_row mul toFixed) (props st))] else [])"

text \<open>A failing fetch: the request is rejected, or answered with a status that is not ok.\<close>

definition failing :: "fetch_outcome \<Rightarrow> bool" where
  "failing outcome =
     (case outcome of NetworkError \<Rightarrow> True | Response status body \<Rightarrow> \<not> ok status)"

section \<open>The RateGovernor\<close>

text \<open>
  The request-rate governor runs in the Flask backend, whose code is not among the
  sources; the frontend only calls the routes it protects. Its definitions below are
  therefore modelled from the specification (section 4.5), with the route budgets that
  the project notes record (listing 100, lookup 150, search 150, manual generation 20
  requests per hour) and a fixed hourly window.
\<close>

text \<open>Modelled from the spec: the four governed routes of section 4.5.\<close>

datatype route = Listing | Lookup | Search | Generate

text \<open>
  Modelled from the spec: the route-specific thresholds, the manual-generate route held
  to the strictest one.
\<close>

definition budget :: "route \<Rightarrow> nat" where
  "budget r = (case r of Listing \<Rightarrow> 100 | Lookup \<Rightarrow> 150 | Search \<Rightarrow> 150 | Generate \<Rightarrow> 20)"

text \<open>Modelled from the spec: the hourly window, in seconds.\<close>

definition window :: nat where
  "window = 3600"

text \<open>
  Modelled from the spec: one counter per (client_key, route), holding the start of its
  window and the requests admitted in it.
\<close>

record counter =
  window_start :: nat
  count :: nat

type_synonym counters = "string \<times> route \<Rightarrow> counter option"

text \<open>Modelled from the spec: the result of \<open>admit\<close> (allowed, remaining, reset_at).\<close>

record admission =
  allowed :: bool
  remaining :: nat
  reset_at :: nat

text \<open>
  Modelled from the spec: the counter a request at time \<open>now\<close> counts against. A
  key never seen, or one whose window has run out, starts a new window at \<open>now\<close>.
\<close>

definition current :: "counter option \<Rightarrow> nat \<Rightarrow> counter" where
  "current stored now =
     (case stored of
        None \<Rightarrow> \<lparr>window_start = now, count = 0\<rparr>
      | Some c \<Rightarrow> if window_start c + window \<le> now
                  then \<lparr>window_start = now, count = 0\<rparr> else c)"

text \<open>
  Modelled from the spec: \<open>admit(client_key, route)\<close> of the backend's rate limiter,
  which is missing from the sources, at time \<open>now\<close>. Under the budget the request is
  admitted and counted; at the budget it is rejected at once (not queued) with
  \<open>remaining = 0\<close>; both answers carry the time the window resets.
\<close>

definition admit :: "counters \<Rightarrow> nat \<Rightarrow> string \<Rightarrow> route \<Rightarrow> admission \<times> counters" where
  "admit st now client_key r =
     (let c = current (st (client_key, r)) now in
      if count c < budget r
      then (\<lparr>allowed = True, remaining = budget r - (count c + 1),
             reset_at = window_start c + window\<rparr>,
            st((client_key, r) \<mapsto> c\<lparr>count := count c + 1\<rparr>))
      else (\<lparr>allowed = False, remaining = 0, reset_at = window_start c + window\<rparr>,
            st((client_key, r) \<mapsto> c)))"

text \<open>
  A sequence of requests (time, client_key, route) served in order, with the answers in
  the same order.
\<close>

fun admit_all :: "counters \<Rightarrow> (nat \<times> string \<times> route) list \<Rightarrow> admission list \<times> counters" where
  "admit_all st [] = ([], st)"
| "admit_all st ((now, client_key, r) # reqs) =
     (let (a, st') = admit st now client_key r;
          (as, st'') = admit_all st' reqs
      in (a # as, st''))"

text \<open>The answers given to the requests of one key, and the times of those requests.\<close>

definition responses_of ::
  "string \<times> route \<Rightarrow> (nat \<times> string \<times> route) list \<Rightarrow> admission list \<Rightarrow> admission list" where
  "responses_of k reqs resps = map snd (filter (\<lambda>(req, a). snd req = k) (zip reqs resps))"

definition times_of :: "string \<times> route \<Rightarrow> (nat \<times> string \<times> route) list \<Rightarrow> nat list" where
  "times_of k reqs = map fst (filter (\<lambda>req. snd req = k) reqs)"

text \<open>A request at \<open>now\<close> opens a new window for a stored counter.\<close>

definition window_opens :: "counter option \<Rightarrow> nat \<Rightarrow> bool" where
  "window_opens stored now =
     (case stored of None \<Rightarrow> True | Some c \<Rightarrow> window_start c + window \<le> now)"

text \<open>
  The answers one counter gives to requests that all fall in its window, used in the
  proofs only.
\<close>

fun in_window :: "counter \<Rightarrow> nat \<Rightarrow> nat list \<Rightarrow> admission list" where
  "in_window c b [] = []"
| "in_window c b (t # ts) =
     \<lparr>allowed = count c < b, remaining = (if count c < b then b - (count c + 1) else 0),
      reset_at = window_start c + window\<rparr>
     # in_window (if count c < b then c\<lparr>count := count c + 1\<rparr> else c) b ts"

section \<open>Results on the probability helpers\<close>

lemma lt_not_ge: "lt p (Num c) \<Longrightarrow> \<not> ge p (Num c)"
  by (cases p) auto

lemma class_strings_distinct: "emerald \<noteq> amber" "emerald \<noteq> rose" "amber \<noteq> rose"
  by (simp_all add: emerald_def amber_def rose_def)

lemma badge_home_cases:
  "getProbabilityBadgeClass_home p =
     (if ge p (Num 0.7) then emerald else if ge p (Num 0.5) then amber else rose)"
  by (simp add: getProbabilityBadgeClass_home_def emerald_def amber_def rose_def)

text \<open>
  C10. The helpers duplicated in the two pages agree on every number: formatProbability
  of the homepage and of the player page return the same string, getProbabilityBadgeClass
  of both pages return the same class, and that class is the emerald one exactly when
  \<open>p >= 0.7\<close>, the amber one exactly when \<open>p >= 0.5\<close> and \<open>p < 0.7\<close>, and the rose
  one in every other case (NaN included).
\<close>

theorem probability_helpers_agree:
  "formatProbability_home mul toFixed p = formatProbability_player mul toFixed p
   \<and> getProbabilityBadgeClass_home p = getProbabilityBadgeClass_player p
   \<and> (getProbabilityBadgeClass_home p = emerald) = ge p (Num 0.7)
   \<and> (getProbabilityBadgeClass_home p = amber) = (ge p (Num 0.5) \<and> lt p (Num 0.7))
   \<and> (getProbabilityBadgeClass_home p = rose)
       = (\<not> ge p (Num 0.7) \<and> \<not> (ge p (Num 0.5) \<and> lt p (Num 0.7)))"
proof -
  have fmt: "formatProbability_home mul toFixed p = formatProbability_player mul toFixed p"
    by (simp add: formatProbability_home_def formatProbability_player_def)
  have cls: "getProbabilityBadgeClass_home p = getProbabilityBadgeClass_player p"
    by (simp add: getProbabilityBadgeClass_home_def getProbabilityBadgeClass_player_def)
  have up: "ge p (Num 0.7) \<Longrightarrow> ge p (Num 0.5)"
    by (cases p) auto
  have mid: "ge p (Num 0.5) \<Longrightarrow> (\<not> ge p (Num 0.7)) = lt p (Num 0.7)"
    by (cases p) auto
  have e: "(getProbabilityBadgeClass_home p = emerald) = ge p (Num 0.7)"
    using class_strings_distinct by (simp add: badge_home_cases)
  have a: "(getProbabilityBadgeClass_home p = amber) = (ge p (Num 0.5) \<and> lt p (Num 0.7))"
    using class_strings_distinct mid lt_not_ge [of p "0.7"] by (auto simp: badge_home_cases)
  have r: "(getProbabilityBadgeClass_home p = rose)
             = (\<not> ge p (Num 0.7) \<and> \<not> (ge p (Num 0.5) \<and> lt p (Num 0.7)))"
    using class_strings_distinct(2,3) mid up by (auto simp: badge_home_cases)
  from fmt cls e a r show ?thesis by blast
qed

section \<open>Results on fetchProps\<close>

lemma mockData_same: "mockData_catch = mockData_not_ok"
  by (simp add: mockData_catch_def mockData_not_ok_def)

lemma mockData_length: "length mockData_not_ok = 5"
  by (simp add: mockData_not_ok_def)

lemma fetchProps_failing:
  "failing (network (props_url api_url fetchDate)) \<Longrightarrow>
   fetchProps network api_url st fetchDate
     = st\<lparr>props := mockData_not_ok, loading := False, error := None\<rparr>"
  by (cases "network (props_url api_url fetchDate)")
     (simp_all add: failing_def fetchProps_def fetchProps_try_def mockData_same)

lemma fetchProps_ok_data:
  "network (props_url api_url fetchDate) = Response 200 (JsonValue data) \<Longrightarrow>
   fetchProps network api_url st fetchDate
     = st\<lparr>props := data, loading := False, error := None\<rparr>"
  by (simp add: fetchProps_def fetchProps_try_def ok_def)

lemma fetchProps_error_null: "error (fetchProps network api_url st fetchDate) = None"
  by (simp add: fetchProps_def fetchProps_try_def Let_def
        split: fetch_outcome.splits json_result.splits)

lemma render_table:
  "\<not> loading st \<Longrightarrow> error st = None \<Longrightarrow> props st \<noteq> [] \<Longrightarrow>
   render mul toFixed st = [ResultsTable (map (render_row mul toFixed) (props st))]"
  by (simp add: render_def truthy_def)

text \<open>
  C9. Whenever the request of fetchProps is rejected (a network error) or answered with
  a status that is not ok, the state fetchProps leaves holds the hard-coded mock array
  of five players (the same array in both branches), the error cell is null and the
  loading flag is off; the page then renders exactly the results table over the mock
  rows, with no error box, and the state is the one a successful response carrying that
  same array would have left. No run of fetchProps, failing or not, leaves an error set.
\<close>

theorem fetchProps_failure_shows_mock:
  "failing (network (props_url api_url fetchDate)) \<Longrightarrow>
   props (fetchProps network api_url st fetchDate) = mockData_not_ok
   \<and> mockData_catch = mockData_not_ok
   \<and> length (props (fetchProps network api_url st fetchDate)) = 5
   \<and> error (fetchProps network api_url st fetchDate) = None
   \<and> loading (fetchProps network api_url st fetchDate) = False
   \<and> render mul toFixed (fetchProps network api_url st fetchDate)
       = [ResultsTable (map (render_row mul toFixed) mockData_not_ok)]
   \<and> fetchProps network api_url st fetchDate
       = fetchProps (\<lambda>url. Response 200 (JsonValue mockData_not_ok)) api_url st fetchDate
   \<and> error (fetchProps any_network any_url any_st any_date) = None"
proof -
  assume f: "failing (network (props_url api_url fetchDate))"
  let ?st = "fetchProps network api_url st fetchDate"
  have eq: "?st = st\<lparr>props := mockData_not_ok, loading := False, error := None\<rparr>"
    using f by (rule fetchProps_failing)
  have p: "props ?st = mockData_not_ok" and e: "error ?st = None" and l: "\<not> loading ?st"
    by (simp_all add: eq)
  have n: "props ?st \<noteq> []"
    using mockData_length p by auto
  have r: "render mul toFixed ?st = [ResultsTable (map (render_row mul toFixed) mockData_not_ok)]"
    using render_table [OF l e n] p by simp
  have s: "?st = fetchProps (\<lambda>url. Response 200 (JsonValue mockData_not_ok)) api_url st fetchDate"
    by (simp add: eq fetchProps_ok_data)
  show ?thesis
    using p e l r s mockData_same mockData_length fetchProps_error_null by simp
qed

theorem fetchProps_failure_shows_mock_witness:
  "failing (Response 500 JsonError)
   \<and> failing NetworkError
   \<and> props (fetchProps (\<lambda>url. Response 500 JsonError) None
        \<lparr>props = [], loading = True, error = None\<rparr> ''2025-04-18'') = mockData_not_ok
   \<and> error (fetchProps (\<lambda>url. NetworkError) None
        \<lparr>props = [], loading = True, error = None\<rparr> ''2025-04-18'') = None
   \<and> render (\<lambda>a b. NaN) (\<lambda>x d. ''0.0'') (fetchProps (\<lambda>url. NetworkError) None
        \<lparr>props = [], loading = True, error = None\<rparr> ''2025-04-18'')
       = [ResultsTable (map (render_row (\<lambda>a b. NaN) (\<lambda>x d. ''0.0'')) mockData_not_ok)]"
proof -
  have a: "failing ((\<lambda>url. Response 500 JsonError) (props_url None ''2025-04-18''))"
    by (simp add: failing_def ok_def)
  have b: "failing ((\<lambda>url. NetworkError) (props_url None ''2025-04-18''))"
    by (simp add: failing_def)
  note w1 = fetchProps_failure_shows_mock
    [where network = "\<lambda>url. Response 500 JsonError" and api_url = None
       and fetchDate = "''2025-04-18''"
       and st = "\<lparr>props = [], loading = True, error = None\<rparr>"
       and mul = "\<lambda>a b. NaN" and toFixed = "\<lambda>x d. ''0.0''", OF a]
  note w2 = fetchProps_failure_shows_mock
    [where network = "\<lambda>url. NetworkError" and api_url = None
       and fetchDate = "''2025-04-18''"
       and st = "\<lparr>props = [], loading = True, error = None\<rparr>"
       and mul = "\<lambda>a b. NaN" and toFixed = "\<lambda>x d. ''0.0''", OF b]
  show ?thesis
    using a b w1 w2 by blast
qed

section \<open>Results on the RateGovernor\<close>

lemma admit_other: "k \<noteq> (c, r) \<Longrightarrow> snd (admit st now c r) k = st k"
  by (simp add: admit_def Let_def)

lemma admit_all_Cons:
  "fst (admit_all st ((t, c, r) # reqs))
     = fst (admit st t c r) # fst (admit_all (snd (admit st t c r)) reqs)"
  by (simp add: Let_def case_prod_beta)

lemma length_admit_all: "length (fst (admit_all st reqs)) = length reqs"
proof (induction reqs arbitrary: st)
  case Nil
  then show ?case by simp
next
  case (Cons req reqs)
  obtain t c r where "req = (t, c, r)" by (cases req) auto
  then show ?case using Cons.IH by (simp only: admit_all_Cons) simp
qed

lemma current_keep: "t < window_start c + window \<Longrightarrow> current (Some c) t = c"
  by (simp add: current_def)

lemma admit_same:
  assumes "st (cl, r) = Some c" and "t < window_start c + window"
  shows "fst (admit st t cl r)
           = \<lparr>allowed = count c < budget r,
              remaining = (if count c < budget r then budget r - (count c + 1) else 0),
              reset_at = window_start c + window\<rparr>"
    and "snd (admit st t cl r) (cl, r)
           = Some (if count c < budget r then c\<lparr>count := count c + 1\<rparr> else c)"
  using assms by (simp_all add: admit_def Let_def current_keep)

lemma responses_of_Cons_same:
  "responses_of k ((t, k) # reqs) (a # as) = a # responses_of k reqs as"
  by (simp add: responses_of_def)

lemma responses_of_Cons_other:
  "k' \<noteq> k \<Longrightarrow> responses_of k ((t, k') # reqs) (a # as) = responses_of k reqs as"
  by (simp add: responses_of_def)

lemma times_of_Cons_same: "times_of k ((t, k) # reqs) = t # times_of k reqs"
  by (simp add: times_of_def)

lemma times_of_Cons_other: "k' \<noteq> k \<Longrightarrow> times_of k ((t, k') # reqs) = times_of k reqs"
  by (simp add: times_of_def)

lemma responses_in_window:
  "st (cl, r) = Some c \<Longrightarrow> \<forall>t \<in> set (times_of (cl, r) reqs). t < window_start c + window \<Longrightarrow>
   responses_of (cl, r) reqs (fst (admit_all st reqs)) = in_window c (budget r) (times_of (cl, r) reqs)"
proof (induction reqs arbitrary: st c)
  case Nil
  then show ?case by (simp add: responses_of_def times_of_def)
next
  case (Cons req reqs)
  obtain t cl' r' where req: "req = (t, cl', r')" by (cases req) auto
  show ?case
  proof (cases "(cl', r') = (cl, r)")
    case True
    then have same: "cl' = cl" "r' = r" by simp_all
    have t: "t < window_start c + window"
      using Cons.prems(2) by (simp add: req same times_of_Cons_same)
    let ?c' = "if count c < budget r then c\<lparr>count := count c + 1\<rparr> else c"
    note adm = admit_same [where st = st and cl = cl and r = r and c = c and t = t,
        OF Cons.prems(1) t]
    have "\<forall>t \<in> set (times_of (cl, r) reqs). t < window_start ?c' + window"
      using Cons.prems(2) by (simp add: req same times_of_Cons_same)
    then have "responses_of (cl, r) reqs (fst (admit_all (snd (admit st t cl r)) reqs))
                 = in_window ?c' (budget r) (times_of (cl, r) reqs)"
      using adm(2) by (rule Cons.IH [rotated])
    then show ?thesis
      by (simp only: req same admit_all_Cons responses_of_Cons_same times_of_Cons_same
             adm(1) in_window.simps)
  next
    case False
    then have ne: "(cl', r') \<noteq> (cl, r)" by simp
    have st': "snd (admit st t cl' r') (cl, r) = Some c"
      using Cons.prems(1) admit_other [of "(cl, r)" cl' r' st t] ne by auto
    have "\<forall>t \<in> set (times_of (cl, r) reqs). t < window_start c + window"
      using Cons.prems(2) by (simp add: req times_of_Cons_other [OF ne])
    then have "responses_of (cl, r) reqs (fst (admit_all (snd (admit st t cl' r')) reqs))
                 = in_window c (budget r) (times_of (cl, r) reqs)"
      using st' by (rule Cons.IH [rotated])
    then show ?thesis
      by (simp only: req admit_all_Cons responses_of_Cons_other [OF ne] times_of_Cons_other [OF ne])
  qed
qed

lemma in_window_map:
  "in_window c b ts =
     map (\<lambda>i. \<lparr>allowed = count c + i < b,
               remaining = (if count c + i < b then b - (count c + i + 1) else 0),
               reset_at = window_start c + window\<rparr>) [0..<length ts]"
proof (induction ts arbitrary: c)
  case Nil
  then show ?case by simp
next
  case (Cons t ts)
  have up: "[0..<length (t # ts)] = 0 # map Suc [0..<length ts]"
    by (simp add: upt_conv_Cons map_Suc_upt del: upt_Suc)
  show ?case
    unfolding up by (simp add: Cons.IH o_def)
qed

lemma current_opens:
  "window_opens stored now \<Longrightarrow> current stored now = \<lparr>window_start = now, count = 0\<rparr>"
  by (simp add: window_opens_def current_def split: option.splits)

lemma admit_opens:
  assumes "window_opens (st (cl, r)) t"
  shows "fst (admit st t cl r)
           = \<lparr>allowed = 0 < budget r,
              remaining = (if 0 < budget r then budget r - 1 else 0),
              reset_at = t + window\<rparr>"
    and "snd (admit st t cl r) (cl, r)
           = Some (if 0 < budget r then \<lparr>window_start = t, count = 1\<rparr>
                   else \<lparr>window_start = t, count = 0\<rparr>)"
  using assms by (simp_all add: admit_def Let_def current_opens)

lemma responses_from_opening:
  "window_opens (st (cl, r)) opened \<Longrightarrow> times_of (cl, r) reqs = opened # ts \<Longrightarrow>
   \<forall>t \<in> set ts. t < opened + window \<Longrightarrow>
   responses_of (cl, r) reqs (fst (admit_all st reqs))
     = in_window \<lparr>window_start = opened, count = 0\<rparr> (budget r) (opened # ts)"
proof (induction reqs arbitrary: st)
  case Nil
  then show ?case by (simp add: times_of_def)
next
  case (Cons req reqs)
  obtain t cl' r' where req: "req = (t, cl', r')" by (cases req) auto
  show ?case
  proof (cases "(cl', r') = (cl, r)")
    case True
    then have same: "cl' = cl" "r' = r" by simp_all
    have t: "t = opened" and rest: "times_of (cl, r) reqs = ts"
      using Cons.prems(2) by (simp_all add: req same times_of_Cons_same)
    let ?c' = "if 0 < budget r then \<lparr>window_start = opened, count = 1\<rparr>
               else \<lparr>window_start = opened, count = 0\<rparr>"
    note adm = admit_opens [where st = st and cl = cl and r = r and t = opened, OF Cons.prems(1)]
    have "\<forall>t \<in> set (times_of (cl, r) reqs). t < window_start ?c' + window"
      using Cons.prems(3) rest by simp
    with adm(2) have "responses_of (cl, r) reqs (fst (admit_all (snd (admit st opened cl r)) reqs))
                 = in_window ?c' (budget r) (times_of (cl, r) reqs)"
      by (rule responses_in_window)
    then show ?thesis
      by (simp only: req same t rest admit_all_Cons responses_of_Cons_same adm(1) in_window.simps)
         simp
  next
    case False
    then have ne: "(cl', r') \<noteq> (cl, r)" by simp
    have "snd (admit st t cl' r') (cl, r) = st (cl, r)"
      using admit_other [of "(cl, r)" cl' r' st t] ne by auto
    then have op: "window_opens (snd (admit st t cl' r') (cl, r)) opened"
      using Cons.prems(1) by simp
    have ti: "times_of (cl, r) reqs = opened # ts"
      using Cons.prems(2) by (simp add: req times_of_Cons_other [OF ne])
    have "responses_of (cl, r) reqs (fst (admit_all (snd (admit st t cl' r')) reqs))
            = in_window \<lparr>window_start = opened, count = 0\<rparr> (budget r) (opened # ts)"
      using op ti Cons.prems(3) by (rule Cons.IH)
    then show ?thesis
      by (simp only: req admit_all_Cons responses_of_Cons_other [OF ne])
  qed
qed

lemma times_of_replicate: "times_of k (replicate n (t, k)) = replicate n t"
  by (induction n) (simp_all add: times_of_def)

text \<open>
  C7. Take a route whose hourly budget is 100 and a client whose first request on that
  route, at time \<open>opened\<close>, opens a window for the pair (the pair was never seen, or
  its last window has run out). Whatever requests of other clients and other routes are
  served in between, and whatever their counters hold, the answers to this pair's
  requests within the window are: the first 100 admitted, with the remaining quota
  counting down from 99 to 0; every later one, the 101st included, rejected with
  \<open>remaining = 0\<close>; each answer carrying the reset time \<open>opened + 3600\<close>. An
  admission on this pair leaves every other pair's counter as it was.
\<close>

theorem admit_hundred_then_reject:
  assumes b: "budget r = 100"
    and o: "window_opens (st (cl, r)) opened"
    and ti: "times_of (cl, r) reqs = opened # ts"
    and w: "\<forall>t \<in> set ts. t < opened + window"
  shows "responses_of (cl, r) reqs (fst (admit_all st reqs))
           = map (\<lambda>i. \<lparr>allowed = i < 100,
                     remaining = (if i < 100 then 99 - i else 0),
                     reset_at = opened + 3600\<rparr>) [0..<Suc (length ts)]
         \<and> (\<forall>k now. k \<noteq> (cl, r) \<longrightarrow> snd (admit st now cl r) k = st k)"
proof -
  have "responses_of (cl, r) reqs (fst (admit_all st reqs))
          = in_window \<lparr>window_start = opened, count = 0\<rparr> (budget r) (opened # ts)"
    using o ti w by (rule responses_from_opening)
  also have "\<dots> = map (\<lambda>i. \<lparr>allowed = i < 100,
                     remaining = (if i < 100 then 99 - i else 0),
                     reset_at = opened + 3600\<rparr>) [0..<Suc (length ts)]"
    unfolding in_window_map b by (simp add: window_def)
  finally show ?thesis
    by (simp add: admit_other)
qed

theorem admit_hundred_then_reject_witness:
  "budget Listing = 100
   \<and> responses_of (''10.0.0.7'', Listing)
       ((5, ''10.0.0.8'', Listing) # (7, ''10.0.0.7'', Search)
          # replicate 101 (10, ''10.0.0.7'', Listing))
       (fst (admit_all Map.empty
          ((5, ''10.0.0.8'', Listing) # (7, ''10.0.0.7'', Search)
             # replicate 101 (10, ''10.0.0.7'', Listing)))) ! 100
     = \<lparr>allowed = False, remaining = 0, reset_at = 3610\<rparr>
   \<and> responses_of (''10.0.0.7'', Listing)
       ((5, ''10.0.0.8'', Listing) # (7, ''10.0.0.7'', Search)
          # replicate 101 (10, ''10.0.0.7'', Listing))
       (fst (admit_all Map.empty
          ((5, ''10.0.0.8'', Listing) # (7, ''10.0.0.7'', Search)
             # replicate 101 (10, ''10.0.0.7'', Listing)))) ! 99
     = \<lparr>allowed = True, remaining = 0, reset_at = 3610\<rparr>"
proof -
  let ?k = "(''10.0.0.7'', Listing)"
  let ?reqs = "(5, ''10.0.0.8'', Listing) # (7, ''10.0.0.7'', Search)
                 # replicate 101 (10, ''10.0.0.7'', Listing)"
  let ?answers = "map (\<lambda>i. \<lparr>allowed = i < 100, remaining = (if i < 100 then 99 - i else 0),
                     reset_at = 10 + 3600\<rparr>) [0..<Suc (length (replicate 100 (10::nat)))]"
  have b: "budget Listing = 100"
    by (simp add: budget_def)
  have o: "window_opens (Map.empty ?k) 10"
    by (simp add: window_opens_def)
  have "replicate 101 (10::nat) = 10 # replicate 100 10"
    by (simp add: numeral_eq_Suc)
  then have ti: "times_of ?k ?reqs = 10 # replicate 100 10"
    by (simp add: times_of_Cons_other times_of_replicate)
  have w: "\<forall>t \<in> set (replicate 100 (10::nat)). t < 10 + window"
    by (simp add: window_def)
  note th = admit_hundred_then_reject
    [where st = Map.empty and cl = "''10.0.0.7''" and r = Listing and opened = 10
       and reqs = ?reqs and ts = "replicate 100 10", OF b o ti w]
  have "?answers ! 100 = \<lparr>allowed = False, remaining = 0, reset_at = 3610\<rparr>"
    and "?answers ! 99 = \<lparr>allowed = True, remaining = 0, reset_at = 3610\<rparr>"
    by (simp_all del: upt_Suc)
  then show ?thesis
    using th b by simp
qed

end
